theory Spec2Isabelle
  imports Main
begin

section \<open>The refactoring script and its collaborators\<close>

text \<open>
  The script \<^verbatim>\<open>scripts/script_openai.py\<close> is a linear pipeline over three external
  services: the source-control host (PyGithub), the LLM endpoint (the OpenAI client) and the
  process environment (environment variables, the clock, the random generator, standard
  output). Each Python function is translated to a function over an explicit trace of the
  effects performed so far. An exception is a value \<open>Inl e\<close>; a normal return is \<open>Inr x\<close>.
  The services themselves are not part of the script: they are fields of a \<open>world\<close>, each a
  function of the history and the request, so that two equal requests may be answered
  differently.
\<close>

subsection \<open>Exceptions\<close>

text \<open>
  What the script or the libraries it calls raise. Every constructor but the last is a
  subclass of Python's \<^verbatim>\<open>Exception\<close>; \<open>OtherError\<close> stands for any subclass not named here
  (\<^verbatim>\<open>AssertionError\<close>, \<^verbatim>\<open>AttributeError\<close>, \<^verbatim>\<open>TypeError\<close>, ...). \<open>KeyboardInterrupt\<close> derives from
  \<^verbatim>\<open>BaseException\<close> only. \<open>KeyError\<close> carries the missing key, the others the text that
  \<^verbatim>\<open>str(e)\<close> gives.
\<close>

datatype error =
    Exception string
  | KeyError string
  | ValueError string
  | IndexError string
  | UnicodeDecodeError string
  | UnicodeEncodeError string
  | OSError string
  | GithubException string
  | OpenAIError string
  | OtherError string
  | KeyboardInterrupt

text \<open>\<^verbatim>\<open>isinstance(e, Exception)\<close>: what \<^verbatim>\<open>except Exception\<close> catches.\<close>

fun is_exception :: "error \<Rightarrow> bool" where
  "is_exception KeyboardInterrupt = False"
| "is_exception _ = True"

text \<open>\<^verbatim>\<open>str(e)\<close>: the message, and for a \<^verbatim>\<open>KeyError\<close> the \<^verbatim>\<open>repr\<close> of the missing key.\<close>

fun str :: "error \<Rightarrow> string" where
  "str (Exception m) = m"
| "str (KeyError k) = [CHR 0x27] @ k @ [CHR 0x27]"
| "str (ValueError m) = m"
| "str (IndexError m) = m"
| "str (UnicodeDecodeError m) = m"
| "str (UnicodeEncodeError m) = m"
| "str (OSError m) = m"
| "str (GithubException m) = m"
| "str (OpenAIError m) = m"
| "str (OtherError m) = m"
| "str KeyboardInterrupt = []"

subsection \<open>Data of the source-control host\<close>

text \<open>
  The attributes of a PyGithub \<^verbatim>\<open>Repository\<close> that the script reads. \<open>parent\<close> is
  \<open>None\<close> where PyGithub gives \<^verbatim>\<open>None\<close>; a repository object itself is truthy.
\<close>

datatype repo = Repo
  (full_name: string)
  (owner_login: string)
  (fork: bool)
  (parent: "repo option")
  (default_branch: string)

text \<open>An element of \<^verbatim>\<open>repo.get_git_tree(...).tree\<close>.\<close>

record tree_item =
  type :: string
  path :: string

text \<open>
  The result of \<^verbatim>\<open>repo.get_contents\<close>. \<open>decoded_utf8\<close> is the outcome of evaluating
  \<^verbatim>\<open>content_file.decoded_content.decode('utf-8')\<close>: the text, or the exception raised
  (\<^verbatim>\<open>UnicodeDecodeError\<close> with its message when the bytes are not valid UTF-8).
\<close>

record content_file =
  decoded_utf8 :: "error + string"
  sha :: string

text \<open>A value of \<^verbatim>\<open>datetime.datetime\<close>.\<close>

record datetime =
  year :: nat
  month :: nat
  day :: nat
  hour :: nat
  minute :: nat
  second :: nat
  microsecond :: nat

subsection \<open>Effects\<close>

text \<open>
  One event per effect, in the order performed. An event of a call that can fail records
  the outcome of the call.
\<close>

datatype event =
    Print string
  | GithubClient string
  | GetRepo string string "error + repo"
  | GetGitTree repo string bool "error + tree_item list"
  | GetContents repo string string "error + content_file"
  | GetBranch repo string "error + string"
  | CreateGitRef repo string string "error + unit"
  | UpdateFile repo string string string string string "error + unit"
  | CreatePull repo string string string string "error + string"
  | ChatCompletion string string string "(string \<times> string) list" "error + string list"
  | Now datetime
  | RandomChoice nat nat
  | RandomSample nat nat "nat list"

text \<open>
  The collaborators. \<open>environ\<close> is \<^verbatim>\<open>os.environ\<close>. Every other field answers a request
  given the events so far. \<open>chat_completions_create\<close> answers with the message contents of
  the response's choices. \<open>rand_choice\<close> and \<open>rand_sample\<close> give the draws of the random
  generator. \<open>stdout_write\<close> is the outcome of writing the exception handler's line to
  standard output: \<open>None\<close> when it is written, the exception raised otherwise (a closed
  or full stream, a text the stream's encoding cannot encode). \<open>stdout_flush\<close> tells
  whether the flush of standard output succeeds when the interpreter exits.
\<close>

record world =
  environ :: "string \<Rightarrow> string option"
  get_repo_api :: "event list \<Rightarrow> string \<Rightarrow> string \<Rightarrow> error + repo"
  get_git_tree_api :: "event list \<Rightarrow> repo \<Rightarrow> string \<Rightarrow> bool \<Rightarrow> error + tree_item list"
  get_contents_api :: "event list \<Rightarrow> repo \<Rightarrow> string \<Rightarrow> string \<Rightarrow> error + content_file"
  get_branch_api :: "event list \<Rightarrow> repo \<Rightarrow> string \<Rightarrow> error + string"
  create_git_ref_api :: "event list \<Rightarrow> repo \<Rightarrow> string \<Rightarrow> string \<Rightarrow> error + unit"
  update_file_api ::
    "event list \<Rightarrow> repo \<Rightarrow> string \<Rightarrow> string \<Rightarrow> string \<Rightarrow> string \<Rightarrow> string \<Rightarrow> error + unit"
  create_pull_api ::
    "event list \<Rightarrow> repo \<Rightarrow> string \<Rightarrow> string \<Rightarrow> string \<Rightarrow> string \<Rightarrow> error + string"
  chat_completions_create_api ::
    "event list \<Rightarrow> string \<Rightarrow> string \<Rightarrow> string \<Rightarrow> (string \<times> string) list \<Rightarrow> error + string list"
  clock :: "event list \<Rightarrow> datetime"
  rand_choice :: "event list \<Rightarrow> nat \<Rightarrow> nat"
  rand_sample :: "event list \<Rightarrow> nat \<Rightarrow> nat \<Rightarrow> nat list"
  stdout_write :: "event list \<Rightarrow> string \<Rightarrow> error option"
  stdout_flush :: "event list \<Rightarrow> bool"

subsection \<open>Sequencing\<close>

text \<open>A statement takes the trace so far and gives its outcome and the extended trace.\<close>

type_synonym 'a prog = "event list \<Rightarrow> (error + 'a) \<times> event list"

definition return :: "'a \<Rightarrow> 'a prog" where
  "return x tr = (Inr x, tr)"

definition raise :: "error \<Rightarrow> 'a prog" where
  "raise e tr = (Inl e, tr)"

text \<open>\<open>bind m f\<close>: run \<open>m\<close>; an exception of \<open>m\<close> skips \<open>f\<close>.\<close>

definition bind :: "'a prog \<Rightarrow> ('a \<Rightarrow> 'b prog) \<Rightarrow> 'b prog" where
  "bind m f tr = (case m tr of (Inl e, tr') \<Rightarrow> (Inl e, tr') | (Inr x, tr') \<Rightarrow> f x tr')"

text \<open>
  \<^verbatim>\<open>try: m except Exception as e: h(e)\<close>: an exception that is not an instance of
  \<^verbatim>\<open>Exception\<close> passes through, and so does whatever the handler raises.
\<close>

definition try_except :: "'a prog \<Rightarrow> (error \<Rightarrow> 'a prog) \<Rightarrow> 'a prog" where
  "try_except m h tr =
     (case m tr of
        (Inl e, tr') \<Rightarrow> if is_exception e then h e tr' else (Inl e, tr')
      | (Inr x, tr') \<Rightarrow> (Inr x, tr'))"

text \<open>
  \<^verbatim>\<open>print(s)\<close> of a progress line inside the \<^verbatim>\<open>try\<close> block. The line is taken as
  written: a failure to write it would be one more exception for the handler of \<^verbatim>\<open>main\<close>.
\<close>

definition print :: "string \<Rightarrow> unit prog" where
  "print s tr = (Inr (), tr @ [Print s])"

text \<open>
  \<^verbatim>\<open>print(s)\<close> in the exception handler of \<^verbatim>\<open>main\<close>, where nothing catches a failure:
  the line is written, or the exception of the write is raised.
\<close>

definition print_or_raise :: "world \<Rightarrow> string \<Rightarrow> unit prog" where
  "print_or_raise w s tr =
     (case stdout_write w tr s of
        None \<Rightarrow> (Inr (), tr @ [Print s])
      | Some e \<Rightarrow> (Inl e, tr))"

subsection \<open>Library calls\<close>

text \<open>\<^verbatim>\<open>os.environ[k]\<close>.\<close>

definition environ_getitem :: "world \<Rightarrow> string \<Rightarrow> string prog" where
  "environ_getitem w k = (case environ w k of None \<Rightarrow> raise (KeyError k) | Some v \<Rightarrow> return v)"

text \<open>\<^verbatim>\<open>Github(token)\<close> builds the client and sends nothing.\<close>

definition Github :: "string \<Rightarrow> unit prog" where
  "Github token tr = (Inr (), tr @ [GithubClient token])"

definition g_get_repo :: "world \<Rightarrow> string \<Rightarrow> string \<Rightarrow> repo prog" where
  "g_get_repo w token name tr =
     (let r = get_repo_api w tr token name in (r, tr @ [GetRepo token name r]))"

definition get_git_tree :: "world \<Rightarrow> repo \<Rightarrow> string \<Rightarrow> bool \<Rightarrow> tree_item list prog" where
  "get_git_tree w rp branch recursive tr =
     (let r = get_git_tree_api w tr rp branch recursive
      in (r, tr @ [GetGitTree rp branch recursive r]))"

definition get_contents :: "world \<Rightarrow> repo \<Rightarrow> string \<Rightarrow> string \<Rightarrow> content_file prog" where
  "get_contents w rp file_path ref tr =
     (let r = get_contents_api w tr rp file_path ref
      in (r, tr @ [GetContents rp file_path ref r]))"

definition get_branch :: "world \<Rightarrow> repo \<Rightarrow> string \<Rightarrow> string prog" where
  "get_branch w rp name tr =
     (let r = get_branch_api w tr rp name in (r, tr @ [GetBranch rp name r]))"

definition create_git_ref :: "world \<Rightarrow> repo \<Rightarrow> string \<Rightarrow> string \<Rightarrow> unit prog" where
  "create_git_ref w rp ref base_sha tr =
     (let r = create_git_ref_api w tr rp ref base_sha
      in (r, tr @ [CreateGitRef rp ref base_sha r]))"

definition update_file ::
  "world \<Rightarrow> repo \<Rightarrow> string \<Rightarrow> string \<Rightarrow> string \<Rightarrow> string \<Rightarrow> string \<Rightarrow> unit prog" where
  "update_file w rp file_path message content file_sha branch tr =
     (let r = update_file_api w tr rp file_path message content file_sha branch
      in (r, tr @ [UpdateFile rp file_path message content file_sha branch r]))"

definition create_pull ::
  "world \<Rightarrow> repo \<Rightarrow> string \<Rightarrow> string \<Rightarrow> string \<Rightarrow> string \<Rightarrow> string prog" where
  "create_pull w rp title body head base tr =
     (let r = create_pull_api w tr rp title body head base
      in (r, tr @ [CreatePull rp title body head base r]))"

definition chat_completions_create ::
  "world \<Rightarrow> string \<Rightarrow> string \<Rightarrow> string \<Rightarrow> (string \<times> string) list \<Rightarrow> string list prog" where
  "chat_completions_create w base_url api_key model messages tr =
     (let r = chat_completions_create_api w tr base_url api_key model messages
      in (r, tr @ [ChatCompletion base_url api_key model messages r]))"

text \<open>\<^verbatim>\<open>datetime.datetime.now()\<close>.\<close>

definition now :: "world \<Rightarrow> datetime prog" where
  "now w tr = (let d = clock w tr in (Inr d, tr @ [Now d]))"

text \<open>\<^verbatim>\<open>content_file.decoded_content.decode('utf-8')\<close>.\<close>

definition decode_utf8 :: "content_file \<Rightarrow> string prog" where
  "decode_utf8 cf = (case decoded_utf8 cf of Inl e \<Rightarrow> raise e | Inr s \<Rightarrow> return s)"

text \<open>
  \<^verbatim>\<open>random.choice(seq)\<close>: an element at a position the generator draws; an empty
  sequence raises \<^verbatim>\<open>IndexError\<close>.
\<close>

definition random_choice :: "world \<Rightarrow> 'a list \<Rightarrow> 'a prog" where
  "random_choice w xs tr =
     (if xs = [] then (Inl (IndexError ''Cannot choose from an empty sequence''), tr)
      else let i = rand_choice w tr (length xs)
           in (Inr (xs ! (i mod length xs)), tr @ [RandomChoice (length xs) i]))"

text \<open>Drawing \<open>k\<close> elements of a pool without replacement, each at a drawn position.\<close>

fun take_sample :: "'a list \<Rightarrow> nat \<Rightarrow> nat list \<Rightarrow> 'a list" where
  "take_sample pool 0 rs = []"
| "take_sample pool (Suc k) rs =
     (if pool = [] then []
      else let i = (case rs of [] \<Rightarrow> 0 | r # _ \<Rightarrow> r) mod length pool
           in pool ! i # take_sample (take i pool @ drop (Suc i) pool) k (tl rs))"

text \<open>
  \<^verbatim>\<open>random.sample(population, k)\<close>: raises \<^verbatim>\<open>ValueError\<close> unless
  \<^verbatim>\<open>0 <= k <= len(population)\<close>.
\<close>

definition random_sample :: "world \<Rightarrow> 'a list \<Rightarrow> int \<Rightarrow> 'a list prog" where
  "random_sample w population k tr =
     (if \<not> (0 \<le> k \<and> k \<le> int (length population))
      then (Inl (ValueError ''Sample larger than population or is negative''), tr)
      else let rs = rand_sample w tr (length population) (nat k)
           in (Inr (take_sample population (nat k) rs),
               tr @ [RandomSample (length population) (nat k) rs]))"

subsection \<open>Strings, paths and dictionaries\<close>

text \<open>\<^verbatim>\<open>s.endswith(suffix)\<close>.\<close>

definition endswith :: "string \<Rightarrow> string \<Rightarrow> bool" where
  "endswith s suffix =
     (length suffix \<le> length s \<and> drop (length s - length suffix) s = suffix)"

text \<open>
  \<^verbatim>\<open>os.path.dirname\<close> (POSIX): the part up to the last slash, its trailing slashes
  stripped unless it consists of slashes only.
\<close>

definition dirname :: "string \<Rightarrow> string" where
  "dirname p =
     (let head = rev (dropWhile (\<lambda>c. c \<noteq> CHR ''/'') (rev p))
      in if head \<noteq> [] \<and> \<not> list_all (\<lambda>c. c = CHR ''/'') head
         then rev (dropWhile (\<lambda>c. c = CHR ''/'') (rev head))
         else head)"

text \<open>\<^verbatim>\<open>sep.join(xs)\<close>.\<close>

fun join :: "string \<Rightarrow> string list \<Rightarrow> string" where
  "join sep [] = []"
| "join sep [x] = x"
| "join sep (x # y # ys) = x @ sep @ join sep (y # ys)"

text \<open>
  A Python \<^verbatim>\<open>dict\<close> keeps its keys in insertion order: a list of pairs with distinct
  keys. \<^verbatim>\<open>d[k] = v\<close> keeps the position of a key already present.
\<close>

type_synonym ('k, 'v) dict = "('k \<times> 'v) list"

fun dict_setitem :: "('k, 'v) dict \<Rightarrow> 'k \<Rightarrow> 'v \<Rightarrow> ('k, 'v) dict" where
  "dict_setitem [] k v = [(k, v)]"
| "dict_setitem ((k', v') # d) k v =
     (if k' = k then (k, v) # d else (k', v') # dict_setitem d k v)"

text \<open>\<^verbatim>\<open>d[k]\<close>.\<close>

definition dict_getitem :: "(string, 'v) dict \<Rightarrow> string \<Rightarrow> 'v prog" where
  "dict_getitem d k = (case map_of d k of None \<Rightarrow> raise (KeyError k) | Some v \<Rightarrow> return v)"

subsection \<open>\<^verbatim>\<open>call_openai\<close>\<close>

definition call_openai :: "world \<Rightarrow> string \<Rightarrow> string \<Rightarrow> string prog" where
  "call_openai w prompt role =
     bind (print (''[OpenAI - '' @ role @ ''] Prompt (first 100 chars): '' @ take 100 prompt
                  @ ''...\<newline>'')) (\<lambda>_.
     bind (environ_getitem w ''OPENAI_KEY'') (\<lambda>api_key.
     bind (chat_completions_create w ''https://openrouter.ai/api/v1'' api_key
             ''openai/gpt-4o-mini''
             [(''system'', ''You are a helpful assistant.''),
              (''user'', role @ '': '' @ prompt)]) (\<lambda>choices.
     case choices of
       [] \<Rightarrow> raise (IndexError ''list index out of range'')
     | c # _ \<Rightarrow> return c)))"

subsection \<open>\<^verbatim>\<open>get_repo\<close>\<close>

definition get_repo :: "world \<Rightarrow> repo prog" where
  "get_repo w =
     (let token = environ w ''TOKEN'';
          repo_name = ''Sanchit27-jalan/SE-Project-1''
      in if token = None \<or> token = Some [] \<or> repo_name = []
         then raise (Exception ''TOKEN and REPOSITORY must be set as environment variables.'')
         else bind (Github (the token)) (\<lambda>_.
              bind (g_get_repo w (the token) repo_name) (\<lambda>rp.
              bind (print (''Connected to GitHub repository: '' @ repo_name)) (\<lambda>_.
              return rp))))"

subsection \<open>\<^verbatim>\<open>pick_files\<close>\<close>

text \<open>The loop that groups the paths of the matching blobs by parent directory.\<close>

fun group_by_dir :: "tree_item list \<Rightarrow> (string, string list) dict \<Rightarrow> (string, string list) dict"
  where
  "group_by_dir [] dir_files = dir_files"
| "group_by_dir (item # tree) dir_files =
     (if type item = ''blob'' \<and> endswith (path item) ''.java''
      then let parent_dir = dirname (path item);
               dir_files' = (if parent_dir \<notin> fst ` set dir_files
                             then dict_setitem dir_files parent_dir []
                             else dir_files)
           in group_by_dir tree
                (dict_setitem dir_files' parent_dir
                   (the (map_of dir_files' parent_dir) @ [path item]))
      else group_by_dir tree dir_files)"

text \<open>\<^verbatim>\<open>for f in selected_files: print(" -", f)\<close>.\<close>

fun print_selected :: "string list \<Rightarrow> unit prog" where
  "print_selected [] = return ()"
| "print_selected (f # fs) = bind (print ('' - '' @ f)) (\<lambda>_. print_selected fs)"

definition fixed_files :: "string list" where
  "fixed_files =
     [''reader-core/src/main/java/com/sismics/reader/core/dao/file/rss/RssReader.java'',
      ''reader-core/src/main/java/com/sismics/reader/core/service/FeedService.java'']"

definition pick_files :: "world \<Rightarrow> repo \<Rightarrow> string option \<Rightarrow> int \<Rightarrow> string list prog" where
  "pick_files w rp branch count =
     (let branch = (case branch of None \<Rightarrow> default_branch rp | Some b \<Rightarrow> b)
      in bind (get_git_tree w rp branch True) (\<lambda>tree.
         let dir_files = group_by_dir tree []
         in if dir_files = [] then return []
            else bind (random_choice w (map fst dir_files)) (\<lambda>target_dir.
                 bind (dict_getitem dir_files target_dir) (\<lambda>files_in_dir.
                 bind (random_sample w files_in_dir
                         (min count (int (length files_in_dir)))) (\<lambda>selected_files.
                 let selected_files = fixed_files
                 in bind (print (''Selected files from directory '' @ [CHR 0x27] @ target_dir
                                 @ [CHR 0x27] @ '':'')) (\<lambda>_.
                    bind (print_selected selected_files) (\<lambda>_.
                    return selected_files)))))))"

subsection \<open>\<^verbatim>\<open>refactor_file_with_llm\<close>\<close>

definition prompt_design_smells :: "string \<Rightarrow> string" where
  "prompt_design_smells original_code =
     ''Analyze the following code for design smells and code quality metrics including:''
     @ ''\<newline>- Cyclomatic complexity''
     @ ''\<newline>- Lines of code''
     @ ''\<newline>- Method length''
     @ ''\<newline>- Class coupling''
     @ ''\<newline>- Number of parameters''
     @ ''\<newline>- Depth of inheritance''
     @ ''\<newline>List any issues found and provide recommendations for improvement:\<newline>\<newline>''
     @ original_code @ ''\<newline>\<newline>''
     @ ''Please provide a brief summary focusing on the most critical issues and metrics that exceed common thresholds.''"

definition prompt_refactor :: "string \<Rightarrow> string \<Rightarrow> string" where
  "prompt_refactor design_smells original_code =
     ''Based on the following detected design smells:\<newline>'' @ design_smells @ ''\<newline>\<newline>''
     @ ''Refactor the code below to address these issues and improve code quality. ''
     @ ''Return only the complete new file content:\<newline>\<newline>'' @ original_code"

definition refactor_file_with_llm ::
  "world \<Rightarrow> repo \<Rightarrow> string \<Rightarrow> string \<Rightarrow> (string \<Rightarrow> string \<Rightarrow> string prog) \<Rightarrow> string
   \<Rightarrow> (string \<times> string \<times> string) prog" where
  "refactor_file_with_llm w rp file_path branch llm_callback llm_name =
     bind (get_contents w rp file_path branch) (\<lambda>content_file.
     bind (decode_utf8 content_file) (\<lambda>original_code.
     bind (llm_callback (prompt_design_smells original_code) ''Design Smell Finder'')
       (\<lambda>design_smells.
     bind (llm_callback (prompt_refactor design_smells original_code) ''Refactoring Expert'')
       (\<lambda>refactored_code.
     return (design_smells, refactored_code, llm_name)))))"

subsection \<open>\<^verbatim>\<open>apply_refactorings_to_files\<close>\<close>

text \<open>
  \<^verbatim>\<open>strftime("%Y%m%d%H%M%S")\<close>: the year as four digits, every other field as two,
  zero-padded, as the library documents it. (The C library of Linux prints a year below
  1000 without padding; from the year 1000 on the two agree.)
\<close>

definition digit :: "nat \<Rightarrow> char" where
  "digit n = ''0123456789'' ! (n mod 10)"

definition pad2 :: "nat \<Rightarrow> string" where
  "pad2 n = [digit (n div 10), digit n]"

definition pad4 :: "nat \<Rightarrow> string" where
  "pad4 n = [digit (n div 1000), digit (n div 100), digit (n div 10), digit n]"

definition strftime_YmdHMS :: "datetime \<Rightarrow> string" where
  "strftime_YmdHMS d =
     pad4 (year d) @ pad2 (month d) @ pad2 (day d) @ pad2 (hour d) @ pad2 (minute d)
     @ pad2 (second d)"

text \<open>The loop over \<^verbatim>\<open>files_updates.items()\<close>.\<close>

fun update_files :: "world \<Rightarrow> repo \<Rightarrow> string \<Rightarrow> string \<Rightarrow> (string, string) dict \<Rightarrow> unit prog"
  where
  "update_files w rp commit_message branch_name [] = return ()"
| "update_files w rp commit_message branch_name ((file_path, new_content) # items) =
     bind (print (''Updating file: '' @ file_path @ '' at repo: '' @ full_name rp)) (\<lambda>_.
     bind (get_contents w rp file_path branch_name) (\<lambda>file_obj.
     bind (update_file w rp file_path commit_message new_content (sha file_obj) branch_name)
       (\<lambda>_.
     update_files w rp commit_message branch_name items)))"

definition apply_refactorings_to_files ::
  "world \<Rightarrow> repo \<Rightarrow> (string, string) dict \<Rightarrow> string prog" where
  "apply_refactorings_to_files w rp files_updates =
     bind (now w) (\<lambda>d.
     let branch_name = ''openai-refactor-'' @ strftime_YmdHMS d;
         ref_name = ''refs/heads/'' @ branch_name
     in bind (get_branch w rp ''master'') (\<lambda>base_sha.
        bind (print (''Creating new branch '' @ [CHR 0x27] @ branch_name @ [CHR 0x27]
                     @ '' from '' @ [CHR 0x27] @ ''main'' @ [CHR 0x27] @ ''...'')) (\<lambda>_.
        bind (create_git_ref w rp ref_name base_sha) (\<lambda>_.
        let commit_message = ''Apply OpenAI-suggested refactorings for selected files''
        in bind (update_files w rp commit_message branch_name files_updates) (\<lambda>_.
           return branch_name)))))"

subsection \<open>\<^verbatim>\<open>create_pull_request\<close>\<close>

definition create_pull_request :: "world \<Rightarrow> repo \<Rightarrow> string \<Rightarrow> string \<Rightarrow> string prog" where
  "create_pull_request w rp branch_name pr_body =
     (let (target_repo, head_branch) =
            (if fork rp \<and> parent rp \<noteq> None
             then (the (parent rp), owner_login rp @ '':'' @ branch_name)
             else (rp, branch_name));
          title = ''OpenAI Refactoring: Automated Code Improvements'';
          base_branch = ''master''
      in create_pull w target_repo title pr_body head_branch base_branch)"

subsection \<open>\<^verbatim>\<open>main\<close>\<close>

text \<open>The loop over the selected files, filling the two dictionaries.\<close>

fun process_files ::
  "world \<Rightarrow> repo \<Rightarrow> string list \<Rightarrow> (string, string) dict \<times> (string, string) dict
   \<Rightarrow> ((string, string) dict \<times> (string, string) dict) prog" where
  "process_files w rp [] dicts = return dicts"
| "process_files w rp (file_path # files) (files_design_smells, files_refactored) =
     bind (print (''\<newline>Processing file: '' @ file_path)) (\<lambda>_.
     bind (refactor_file_with_llm w rp file_path ''master'' (call_openai w) ''OpenAI'')
       (\<lambda>(openai_design_smells, openai_refactored_code, _).
     process_files w rp files
       (dict_setitem files_design_smells file_path openai_design_smells,
        dict_setitem files_refactored file_path openai_refactored_code)))"

text \<open>The loop that builds \<^verbatim>\<open>pr_body_lines\<close>.\<close>

fun pr_body_lines :: "(string, string) dict \<Rightarrow> string list \<Rightarrow> string list" where
  "pr_body_lines [] ls = ls"
| "pr_body_lines ((file_path, design_smells) # items) ls =
     pr_body_lines items
       (ls @ [''### File: `'' @ file_path @ ''`'', ''**Design Smells Detected:**'',
              design_smells, ''\<newline>''])"

text \<open>The body of the \<^verbatim>\<open>try\<close> block.\<close>

definition main_body :: "world \<Rightarrow> unit prog" where
  "main_body w =
     bind (get_repo w) (\<lambda>rp.
     bind (pick_files w rp (Some ''master'') 2) (\<lambda>selected_files.
     if selected_files = [] then print ''No eligible files found for refactoring.''
     else bind (process_files w rp selected_files ([], []))
       (\<lambda>(files_design_smells, files_refactored).
     bind (apply_refactorings_to_files w rp files_refactored) (\<lambda>branch_name.
     let pr_body =
           join ''\<newline>''
             (pr_body_lines files_design_smells [''## OpenAI LLM Refactoring Summary\<newline>''])
     in bind (create_pull_request w rp branch_name pr_body) (\<lambda>pr_url.
        bind (print ''\<newline>Pull Request created successfully:'') (\<lambda>_.
        print pr_url))))))"

definition main :: "world \<Rightarrow> unit prog" where
  "main w =
     try_except (main_body w) (\<lambda>e. print_or_raise w (''An error occurred: '' @ str e))"

text \<open>
  The exit status of the process running \<^verbatim>\<open>main()\<close> from an empty trace. When \<^verbatim>\<open>main\<close>
  returns the status is \<open>0\<close>, or \<open>120\<close> if the final flush of standard output fails. When
  an exception leaves \<^verbatim>\<open>main\<close> the status is \<open>1\<close>, and \<open>130\<close> for \<^verbatim>\<open>KeyboardInterrupt\<close>.
\<close>

definition exit_status :: "world \<Rightarrow> nat" where
  "exit_status w =
     (case main w [] of
        (Inr _, tr) \<Rightarrow> if stdout_flush w tr then 0 else 120
      | (Inl e, tr) \<Rightarrow> if e = KeyboardInterrupt then 130 else 1)"

subsection \<open>Observations of a trace\<close>

text \<open>The LLM requests of a trace: the messages sent and the outcome, in order.\<close>

fun llm_call :: "event \<Rightarrow> ((string \<times> string) list \<times> (error + string list)) list" where
  "llm_call (ChatCompletion base_url api_key model messages r) = [(messages, r)]"
| "llm_call _ = []"

definition llm_calls :: "event list \<Rightarrow> ((string \<times> string) list \<times> (error + string list)) list"
  where
  "llm_calls tr = concat (map llm_call tr)"

text \<open>The refs a trace asked to create.\<close>

fun created_ref :: "event \<Rightarrow> string list" where
  "created_ref (CreateGitRef rp ref base_sha r) = [ref]"
| "created_ref _ = []"

definition created_refs :: "event list \<Rightarrow> string list" where
  "created_refs tr = concat (map created_ref tr)"

text \<open>The file updates a trace asked for: path and new content.\<close>

fun file_update :: "event \<Rightarrow> (string \<times> string) list" where
  "file_update (UpdateFile rp file_path message content file_sha branch r) =
     [(file_path, content)]"
| "file_update _ = []"

definition file_updates :: "event list \<Rightarrow> (string \<times> string) list" where
  "file_updates tr = concat (map file_update tr)"

text \<open>The pull requests a trace asked for: target repository, head and body.\<close>

fun pull_request :: "event \<Rightarrow> (repo \<times> string \<times> string) list" where
  "pull_request (CreatePull rp title body head base r) = [(rp, head, body)]"
| "pull_request _ = []"

definition pull_requests :: "event list \<Rightarrow> (repo \<times> string \<times> string) list" where
  "pull_requests tr = concat (map pull_request tr)"


text \<open>The user message that \<^verbatim>\<open>call_openai\<close> sends for a prompt and a role.\<close>

definition chat_messages :: "string \<Rightarrow> string \<Rightarrow> (string \<times> string) list" where
  "chat_messages role prompt =
     [(''system'', ''You are a helpful assistant.''), (''user'', role @ '': '' @ prompt)]"

text \<open>The line that \<^verbatim>\<open>call_openai\<close> prints before it reads the key.\<close>

definition openai_log :: "string \<Rightarrow> string \<Rightarrow> string" where
  "openai_log role prompt =
     ''[OpenAI - '' @ role @ ''] Prompt (first 100 chars): '' @ take 100 prompt @ ''...\<newline>''"

text \<open>The request that \<^verbatim>\<open>call_openai\<close> sends with a key, for a prompt and a role, and its outcome.\<close>

definition openai_request :: "string \<Rightarrow> string \<Rightarrow> string \<Rightarrow> error + string list \<Rightarrow> event" where
  "openai_request api_key role prompt r =
     ChatCompletion ''https://openrouter.ai/api/v1'' api_key ''openai/gpt-4o-mini''
       (chat_messages role prompt) r"

subsection \<open>Dates\<close>

text \<open>The ranges of the fields of a \<^verbatim>\<open>datetime\<close> (\<^verbatim>\<open>MINYEAR\<close> is 1, \<^verbatim>\<open>MAXYEAR\<close> 9999).\<close>

definition valid_datetime :: "datetime \<Rightarrow> bool" where
  "valid_datetime d \<longleftrightarrow>
     1 \<le> year d \<and> year d \<le> 9999 \<and> 1 \<le> month d \<and> month d \<le> 12 \<and> 1 \<le> day d \<and> day d \<le> 31
     \<and> hour d < 24 \<and> minute d < 60 \<and> second d < 60 \<and> microsecond d < 1000000"

text \<open>A time at the resolution of one second.\<close>

definition to_second :: "datetime \<Rightarrow> nat \<times> nat \<times> nat \<times> nat \<times> nat \<times> nat" where
  "to_second d = (year d, month d, day d, hour d, minute d, second d)"

subsection \<open>Example worlds\<close>

definition example_repo :: repo where
  "example_repo = Repo ''Sanchit27-jalan/SE-Project-1'' ''Sanchit27-jalan'' False None ''master''"

definition upstream_repo :: repo where
  "upstream_repo = Repo ''sismics/reader'' ''sismics'' False None ''master''"

definition forked_repo :: repo where
  "forked_repo = Repo ''dev/reader'' ''dev'' True (Some upstream_repo) ''master''"

definition orphan_fork :: repo where
  "orphan_fork = Repo ''dev/reader'' ''dev'' True None ''master''"

definition example_time :: datetime where
  "example_time =
     \<lparr>year = 2025, month = 3, day = 9, hour = 14, minute = 5, second = 7,
      microsecond = 123456\<rparr>"

text \<open>
  A world in which every request succeeds: the tree listing is \<open>tree\<close>, every file reads
  \<^verbatim>\<open>class A {}\<close>, each LLM reply is numbered by the length of the history, the clock
  shows a second that depends on the history, and standard output takes every line.
\<close>

definition example_world :: "(string \<Rightarrow> string option) \<Rightarrow> tree_item list \<Rightarrow> world" where
  "example_world env tree =
     \<lparr>environ = env,
      get_repo_api = (\<lambda>h token name. Inr example_repo),
      get_git_tree_api = (\<lambda>h rp branch recursive. Inr tree),
      get_contents_api = (\<lambda>h rp file_path ref.
         Inr \<lparr>decoded_utf8 = Inr ''class A {}'', sha = ''f00''\<rparr>),
      get_branch_api = (\<lambda>h rp name. Inr ''c0ffee''),
      create_git_ref_api = (\<lambda>h rp ref base_sha. Inr ()),
      update_file_api = (\<lambda>h rp file_path message content file_sha branch. Inr ()),
      create_pull_api = (\<lambda>h rp title body head base. Inr ''https://example.org/pull/1''),
      chat_completions_create_api = (\<lambda>h base_url api_key model messages.
         Inr [''reply '' @ pad2 (length h)]),
      clock = (\<lambda>h. example_time\<lparr>second := length h mod 60\<rparr>),
      rand_choice = (\<lambda>h n. 1),
      rand_sample = (\<lambda>h n k. []),
      stdout_write = (\<lambda>h s. None),
      stdout_flush = (\<lambda>h. True)\<rparr>"

text \<open>The same world, except that no file can be read.\<close>

definition unreadable_world :: "(string \<Rightarrow> string option) \<Rightarrow> tree_item list \<Rightarrow> world" where
  "unreadable_world env tree =
     (example_world env tree)
       \<lparr>get_contents_api := (\<lambda>h rp file_path ref. Inl (GithubException ''404 Not Found''))\<rparr>"



text \<open>The same world, except that standard output is full.\<close>

definition full_stdout_world :: "(string \<Rightarrow> string option) \<Rightarrow> tree_item list \<Rightarrow> world" where
  "full_stdout_world env tree =
     (example_world env tree)
       \<lparr>stdout_write := (\<lambda>h s. Some (OSError ''[Errno 28] No space left on device''))\<rparr>"

text \<open>The same world, except that the final flush of standard output fails.\<close>

definition unflushed_world :: "(string \<Rightarrow> string option) \<Rightarrow> tree_item list \<Rightarrow> world" where
  "unflushed_world env tree = (example_world env tree)\<lparr>stdout_flush := (\<lambda>h. False)\<rparr>"

text \<open>The same world, except that the user interrupts the request for the repository.\<close>

definition interrupted_world :: "(string \<Rightarrow> string option) \<Rightarrow> tree_item list \<Rightarrow> world" where
  "interrupted_world env tree =
     (example_world env tree)\<lparr>get_repo_api := (\<lambda>h token name. Inl KeyboardInterrupt)\<rparr>"

definition env_both :: "string \<Rightarrow> string option" where
  "env_both = [''TOKEN'' \<mapsto> ''t0'', ''OPENAI_KEY'' \<mapsto> ''k0'']"


definition env_empty :: "string \<Rightarrow> string option" where
  "env_empty = Map.empty"

definition two_dirs_tree :: "tree_item list" where
  "two_dirs_tree =
     [\<lparr>type = ''blob'', path = ''a/X.java''\<rparr>,
      \<lparr>type = ''blob'', path = ''b/Y.java''\<rparr>]"


section \<open>Properties\<close>

subsection \<open>Sequencing and library calls\<close>

lemma bind_return [simp]: "bind (return x) f tr = f x tr"
  by (simp add: bind_def return_def)

lemma bind_raise [simp]: "bind (raise e) f tr = (Inl e, tr)"
  by (simp add: bind_def raise_def)

lemma bind_print [simp]: "bind (print s) f tr = f () (tr @ [Print s])"
  by (simp add: bind_def print_def)


subsection \<open>Grouping by directory\<close>





subsection \<open>The file selector\<close>




text \<open>
  Claim C1. The claim: on a tree of \<^verbatim>\<open>.java\<close> blobs under two directories and a count of at
  least one, \<^verbatim>\<open>pick_files\<close> returns a non-empty selection inside one of the two directories,
  of length at most the count. The code at the tree \<^verbatim>\<open>a/X.java\<close>, \<^verbatim>\<open>b/Y.java\<close> with count 1:
  the grouping finds the directories \<^verbatim>\<open>a\<close> and \<^verbatim>\<open>b\<close>, directory \<^verbatim>\<open>b\<close> is drawn and one file
  sampled, and then the two hard-coded paths are returned: two files for a count of one, in
  two directories, neither of them \<^verbatim>\<open>a\<close> or \<^verbatim>\<open>b\<close>.
\<close>

theorem pick_files_two_dirs_count_one:
  "pick_files (example_world env_both two_dirs_tree) example_repo (Some ''master'') 1 [] =
     (Inr fixed_files,
      [GetGitTree example_repo ''master'' True (Inr two_dirs_tree),
       RandomChoice 2 1, RandomSample 1 1 [],
       Print (''Selected files from directory '' @ [CHR 0x27] @ ''b'' @ [CHR 0x27] @ '':''),
       Print ('' - '' @ fixed_files ! 0), Print ('' - '' @ fixed_files ! 1)])
   \<and> group_by_dir two_dirs_tree [] = [(''a'', [''a/X.java'']), (''b'', [''b/Y.java''])]
   \<and> length fixed_files = 2
   \<and> map dirname fixed_files =
       [''reader-core/src/main/java/com/sismics/reader/core/dao/file/rss'',
        ''reader-core/src/main/java/com/sismics/reader/core/service'']"
  by (simp add: pick_files_def example_world_def two_dirs_tree_def get_git_tree_def bind_def
      Let_def endswith_def dirname_def random_choice_def dict_getitem_def random_sample_def
      return_def print_def fixed_files_def)




text \<open>
  Claim C4. When \<^verbatim>\<open>TOKEN\<close> is absent or empty, \<^verbatim>\<open>get_repo\<close> raises its explicit exception
  and the trace is unchanged: no client was built and no request was sent.
\<close>

theorem get_repo_without_token:
  "environ w ''TOKEN'' = None \<or> environ w ''TOKEN'' = Some [] \<Longrightarrow>
   get_repo w tr =
     (Inl (Exception ''TOKEN and REPOSITORY must be set as environment variables.''), tr)"
  by (auto simp: get_repo_def raise_def)

theorem get_repo_without_token_witness:
  "(environ (example_world env_empty two_dirs_tree) ''TOKEN'' = None
    \<or> environ (example_world env_empty two_dirs_tree) ''TOKEN'' = Some [])
   \<and> get_repo (example_world env_empty two_dirs_tree) [] =
     (Inl (Exception ''TOKEN and REPOSITORY must be set as environment variables.''), [])"
  using get_repo_without_token [of "example_world env_empty two_dirs_tree" "[]"]
  by (simp add: example_world_def env_empty_def)

text \<open>
  Claim C6. The claim: a handle whose fork flag is true sends the pull request to the parent
  with the head \<^verbatim>\<open>login:branch\<close>. The code also asks that the parent be present: for a fork
  without a parent the request goes to the handle's own repository with the unqualified
  branch name.
\<close>

theorem create_pull_request_orphan_fork:
  "fork orphan_fork \<and> parent orphan_fork = None
   \<and> create_pull_request (example_world env_both two_dirs_tree) orphan_fork ''b1'' ''text'' [] =
       (Inr ''https://example.org/pull/1'',
        [CreatePull orphan_fork ''OpenAI Refactoring: Automated Code Improvements'' ''text''
           ''b1'' ''master'' (Inr ''https://example.org/pull/1'')])"
  by (simp add: create_pull_request_def create_pull_def Let_def orphan_fork_def
      example_world_def)

text \<open>
  Claim C6, amended. For a handle whose fork flag is true and whose parent is present,
  \<^verbatim>\<open>create_pull_request\<close> sends one creation request to the parent with the head
  \<^verbatim>\<open>login:branch\<close>; for a handle whose fork flag is false or whose parent is absent, it sends
  one creation request to the handle's own repository with the unqualified branch name. In
  both cases it returns the outcome of that request.
\<close>

theorem create_pull_request_target:
  "(fork rp \<and> parent rp = Some p \<longrightarrow>
      create_pull_request w rp branch_name pr_body tr =
        (create_pull_api w tr p ''OpenAI Refactoring: Automated Code Improvements'' pr_body
           (owner_login rp @ '':'' @ branch_name) ''master'',
         tr @ [CreatePull p ''OpenAI Refactoring: Automated Code Improvements'' pr_body
                 (owner_login rp @ '':'' @ branch_name) ''master''
                 (create_pull_api w tr p ''OpenAI Refactoring: Automated Code Improvements''
                    pr_body (owner_login rp @ '':'' @ branch_name) ''master'')]))
   \<and> (\<not> fork rp \<or> parent rp = None \<longrightarrow>
      create_pull_request w rp branch_name pr_body tr =
        (create_pull_api w tr rp ''OpenAI Refactoring: Automated Code Improvements'' pr_body
           branch_name ''master'',
         tr @ [CreatePull rp ''OpenAI Refactoring: Automated Code Improvements'' pr_body
                 branch_name ''master''
                 (create_pull_api w tr rp ''OpenAI Refactoring: Automated Code Improvements''
                    pr_body branch_name ''master'')]))"
  by (auto simp: create_pull_request_def create_pull_def Let_def)

theorem create_pull_request_target_witness:
  "fork forked_repo \<and> parent forked_repo = Some upstream_repo
   \<and> create_pull_request (example_world env_both two_dirs_tree) forked_repo ''b1'' ''text'' [] =
       (Inr ''https://example.org/pull/1'',
        [CreatePull upstream_repo ''OpenAI Refactoring: Automated Code Improvements'' ''text''
           ''dev:b1'' ''master'' (Inr ''https://example.org/pull/1'')])
   \<and> \<not> fork example_repo
   \<and> create_pull_request (example_world env_both two_dirs_tree) example_repo ''b1'' ''text'' [] =
       (Inr ''https://example.org/pull/1'',
        [CreatePull example_repo ''OpenAI Refactoring: Automated Code Improvements'' ''text''
           ''b1'' ''master'' (Inr ''https://example.org/pull/1'')])"
  using create_pull_request_target
          [of forked_repo upstream_repo "example_world env_both two_dirs_tree" "''b1''"
              "''text''" "[]"]
        create_pull_request_target
          [of example_repo upstream_repo "example_world env_both two_dirs_tree" "''b1''"
              "''text''" "[]"]
  by (simp add: forked_repo_def example_repo_def example_world_def)

subsection \<open>Observations of composed traces\<close>

lemma llm_calls_append [simp]: "llm_calls (xs @ ys) = llm_calls xs @ llm_calls ys"
  by (simp add: llm_calls_def)

lemma created_refs_append [simp]: "created_refs (xs @ ys) = created_refs xs @ created_refs ys"
  by (simp add: created_refs_def)

lemma file_updates_append [simp]: "file_updates (xs @ ys) = file_updates xs @ file_updates ys"
  by (simp add: file_updates_def)

lemma pull_requests_append [simp]:
  "pull_requests (xs @ ys) = pull_requests xs @ pull_requests ys"
  by (simp add: pull_requests_def)

lemma llm_calls_Nil [simp]: "llm_calls [] = []"
  by (simp add: llm_calls_def)

lemma created_refs_Nil [simp]: "created_refs [] = []"
  by (simp add: created_refs_def)

lemma file_updates_Nil [simp]: "file_updates [] = []"
  by (simp add: file_updates_def)

lemma pull_requests_Nil [simp]: "pull_requests [] = []"
  by (simp add: pull_requests_def)

lemma llm_calls_Cons [simp]: "llm_calls (e # tr) = llm_call e @ llm_calls tr"
  by (simp add: llm_calls_def)

lemma created_refs_Cons [simp]: "created_refs (e # tr) = created_ref e @ created_refs tr"
  by (simp add: created_refs_def)

lemma file_updates_Cons [simp]: "file_updates (e # tr) = file_update e @ file_updates tr"
  by (simp add: file_updates_def)

lemma pull_requests_Cons [simp]: "pull_requests (e # tr) = pull_request e @ pull_requests tr"
  by (simp add: pull_requests_def)


subsection \<open>A run without eligible files\<close>




subsection \<open>Branch names\<close>

lemma small_nat_cases:
  fixes k :: nat
  assumes "k < 10"
  shows "k = 0 \<or> k = 1 \<or> k = 2 \<or> k = 3 \<or> k = 4 \<or> k = 5 \<or> k = 6 \<or> k = 7 \<or> k = 8 \<or> k = 9"
  using assms by presburger

lemma digit_code: "(of_char (digit n) :: nat) = 48 + n mod 10"
proof -
  have "n mod 10 < 10" by simp
  then show ?thesis
    unfolding digit_def by (elim disjE small_nat_cases [THEN disjE]) simp_all
qed

lemma digit_eq: "digit a = digit b \<Longrightarrow> a mod 10 = b mod 10"
proof -
  assume "digit a = digit b"
  then have "(of_char (digit a) :: nat) = of_char (digit b)" by simp
  then show ?thesis by (simp add: digit_code)
qed

lemma div_mod_10_eq:
  fixes a b :: nat
  assumes "a div 10 = b div 10" "a mod 10 = b mod 10"
  shows "a = b"
  using assms by (metis div_mult_mod_eq)

lemma pad2_eq:
  assumes "pad2 a = pad2 b" "a < 100" "b < 100"
  shows "a = b"
proof -
  from assms(1) have d: "(a div 10) mod 10 = (b div 10) mod 10" "a mod 10 = b mod 10"
    by (auto simp: pad2_def dest: digit_eq)
  have "a div 10 < 10" "b div 10 < 10" using assms(2,3) by simp_all
  with d(1) have "a div 10 = b div 10" by simp
  then show ?thesis using d(2) by (rule div_mod_10_eq)
qed

lemma pad4_eq:
  assumes "pad4 a = pad4 b" "a < 10000" "b < 10000"
  shows "a = b"
proof -
  from assms(1) have d: "(a div 1000) mod 10 = (b div 1000) mod 10"
    "(a div 100) mod 10 = (b div 100) mod 10"
    "(a div 10) mod 10 = (b div 10) mod 10" "a mod 10 = b mod 10"
    by (auto simp: pad4_def dest: digit_eq)
  have "a div 1000 < 10" "b div 1000 < 10" using assms(2,3) by simp_all
  with d(1) have e3: "a div 1000 = b div 1000" by simp
  have h2: "a div 100 div 10 = a div 1000" "b div 100 div 10 = b div 1000"
    by (simp_all add: div_mult2_eq [symmetric])
  have "a div 100 div 10 = b div 100 div 10"
    unfolding h2 by (rule e3)
  then have e2: "a div 100 = b div 100"
    using d(2) by (rule div_mod_10_eq)
  have h1: "a div 10 div 10 = a div 100" "b div 10 div 10 = b div 100"
    by (simp_all add: div_mult2_eq [symmetric])
  have "a div 10 div 10 = b div 10 div 10"
    unfolding h1 by (rule e2)
  then have e1: "a div 10 = b div 10"
    using d(3) by (rule div_mod_10_eq)
  from e1 d(4) show ?thesis by (rule div_mod_10_eq)
qed

lemma strftime_length: "length (strftime_YmdHMS d) = 14"
  by (simp add: strftime_YmdHMS_def pad2_def pad4_def)

lemma strftime_eq:
  assumes "strftime_YmdHMS d = strftime_YmdHMS e" "valid_datetime d" "valid_datetime e"
  shows "to_second d = to_second e"
proof -
  from assms(1) have "pad4 (year d) = pad4 (year e)" "pad2 (month d) = pad2 (month e)"
    "pad2 (day d) = pad2 (day e)" "pad2 (hour d) = pad2 (hour e)"
    "pad2 (minute d) = pad2 (minute e)" "pad2 (second d) = pad2 (second e)"
    by (simp_all add: strftime_YmdHMS_def pad2_def pad4_def)
  moreover have "year d < 10000" "year e < 10000" "month d < 100" "month e < 100"
    "day d < 100" "day e < 100" "hour d < 100" "hour e < 100" "minute d < 100"
    "minute e < 100" "second d < 100" "second e < 100"
    using assms(2,3) by (simp_all add: valid_datetime_def)
  ultimately have "year d = year e" "month d = month e" "day d = day e" "hour d = hour e"
    "minute d = minute e" "second d = second e"
    by (blast intro: pad2_eq pad4_eq)+
  then show ?thesis
    by (simp add: to_second_def)
qed

lemma bind_eq_Inr:
  "bind m f tr = (Inr y, tr'') \<longleftrightarrow> (\<exists>x tr'. m tr = (Inr x, tr') \<and> f x tr' = (Inr y, tr''))"
  by (auto simp: bind_def split: prod.splits sum.splits)

lemma now_eq: "now w tr = (Inr (clock w tr), tr @ [Now (clock w tr)])"
  by (simp add: now_def Let_def)

lemma apply_refactorings_name:
  assumes "apply_refactorings_to_files w rp files_updates tr = (Inr b, tr')"
  shows "b = ''openai-refactor-'' @ strftime_YmdHMS (clock w tr)"
  using assms
  by (auto simp: apply_refactorings_to_files_def bind_eq_Inr now_eq Let_def return_def)

lemma apply_refactorings_example:
  "apply_refactorings_to_files (example_world env_both two_dirs_tree) example_repo [] [] =
     (Inr ''openai-refactor-20250309140500'',
      [Now (example_time\<lparr>second := 0\<rparr>), GetBranch example_repo ''master'' (Inr ''c0ffee''),
       Print (''Creating new branch '' @ [CHR 0x27] @ ''openai-refactor-20250309140500''
              @ [CHR 0x27] @ '' from '' @ [CHR 0x27] @ ''main'' @ [CHR 0x27] @ ''...''),
       CreateGitRef example_repo ''refs/heads/openai-refactor-20250309140500'' ''c0ffee''
         (Inr ())])"
  "apply_refactorings_to_files (example_world env_both two_dirs_tree) example_repo []
     [Print ''later''] =
     (Inr ''openai-refactor-20250309140501'',
      [Print ''later'',
       Now (example_time\<lparr>second := 1\<rparr>), GetBranch example_repo ''master'' (Inr ''c0ffee''),
       Print (''Creating new branch '' @ [CHR 0x27] @ ''openai-refactor-20250309140501''
              @ [CHR 0x27] @ '' from '' @ [CHR 0x27] @ ''main'' @ [CHR 0x27] @ ''...''),
       CreateGitRef example_repo ''refs/heads/openai-refactor-20250309140501'' ''c0ffee''
         (Inr ())])"
  by (simp_all add: apply_refactorings_to_files_def bind_def now_def Let_def return_def
      example_world_def example_time_def get_branch_def create_git_ref_def print_def
      strftime_YmdHMS_def pad2_def pad4_def digit_def)

text \<open>
  Claim C5. Two calls of \<^verbatim>\<open>apply_refactorings_to_files\<close> that return, made when the clock
  shows two instants that differ at the resolution of one second, return two different
  branch names, each the fixed prefix followed by the fourteen digits of its instant.
\<close>

theorem branch_names_distinct:
  assumes "apply_refactorings_to_files w1 rp1 files1 tr1 = (Inr b1, tr1')"
    and "apply_refactorings_to_files w2 rp2 files2 tr2 = (Inr b2, tr2')"
    and "valid_datetime (clock w1 tr1)" and "valid_datetime (clock w2 tr2)"
    and "to_second (clock w1 tr1) \<noteq> to_second (clock w2 tr2)"
  shows "b1 = ''openai-refactor-'' @ strftime_YmdHMS (clock w1 tr1)
       \<and> b2 = ''openai-refactor-'' @ strftime_YmdHMS (clock w2 tr2)
       \<and> length (strftime_YmdHMS (clock w1 tr1)) = 14
       \<and> length (strftime_YmdHMS (clock w2 tr2)) = 14
       \<and> b1 \<noteq> b2"
proof -
  have n1: "b1 = ''openai-refactor-'' @ strftime_YmdHMS (clock w1 tr1)"
    using assms(1) by (rule apply_refactorings_name)
  have n2: "b2 = ''openai-refactor-'' @ strftime_YmdHMS (clock w2 tr2)"
    using assms(2) by (rule apply_refactorings_name)
  have "strftime_YmdHMS (clock w1 tr1) \<noteq> strftime_YmdHMS (clock w2 tr2)"
    using strftime_eq [OF _ assms(3,4)] assms(5) by blast
  with n1 n2 show ?thesis
    by (simp add: strftime_length)
qed

theorem branch_names_distinct_witness:
  "fst (apply_refactorings_to_files (example_world env_both two_dirs_tree) example_repo [] [])
     = Inr ''openai-refactor-20250309140500''
   \<and> fst (apply_refactorings_to_files (example_world env_both two_dirs_tree) example_repo []
            [Print ''later''])
     = Inr ''openai-refactor-20250309140501''
   \<and> valid_datetime (clock (example_world env_both two_dirs_tree) [])
   \<and> valid_datetime (clock (example_world env_both two_dirs_tree) [Print ''later''])
   \<and> to_second (clock (example_world env_both two_dirs_tree) [])
       \<noteq> to_second (clock (example_world env_both two_dirs_tree) [Print ''later''])
   \<and> ''openai-refactor-20250309140500'' =
       ''openai-refactor-'' @
       strftime_YmdHMS (clock (example_world env_both two_dirs_tree) [])
   \<and> ''openai-refactor-20250309140500'' \<noteq> ''openai-refactor-20250309140501''"
proof -
  have v: "valid_datetime (clock (example_world env_both two_dirs_tree) [])"
    "valid_datetime (clock (example_world env_both two_dirs_tree) [Print ''later''])"
    by (simp_all add: valid_datetime_def example_world_def example_time_def)
  have d: "to_second (clock (example_world env_both two_dirs_tree) [])
       \<noteq> to_second (clock (example_world env_both two_dirs_tree) [Print ''later''])"
    by (simp add: to_second_def example_world_def example_time_def)
  note t = branch_names_distinct
      [OF apply_refactorings_example(1) apply_refactorings_example(2) v d]
  have c1: "fst (apply_refactorings_to_files (example_world env_both two_dirs_tree)
                   example_repo [] []) = Inr ''openai-refactor-20250309140500''"
    by (simp add: apply_refactorings_example)
  have c2: "fst (apply_refactorings_to_files (example_world env_both two_dirs_tree)
                   example_repo [] [Print ''later'']) = Inr ''openai-refactor-20250309140501''"
    by (simp add: apply_refactorings_example)
  from t have c3: "''openai-refactor-20250309140500'' =
       ''openai-refactor-'' @
       strftime_YmdHMS (clock (example_world env_both two_dirs_tree) [])"
    by (rule conjunct1)
  from t have c4: "''openai-refactor-20250309140500'' \<noteq> ''openai-refactor-20250309140501''"
    by blast
  from c1 c2 v d c3 c4 show ?thesis
    by (intro conjI)
qed

subsection \<open>The top-level handler\<close>

lemma main_eq:
  "main w tr =
     (case main_body w tr of
        (Inr u, tr') \<Rightarrow> (Inr u, tr')
      | (Inl e, tr') \<Rightarrow>
          if is_exception e
          then (case stdout_write w tr' (''An error occurred: '' @ str e) of
                  None \<Rightarrow> (Inr (), tr' @ [Print (''An error occurred: '' @ str e)])
                | Some e' \<Rightarrow> (Inl e', tr'))
          else (Inl e, tr'))"
  by (auto simp: main_def try_except_def print_or_raise_def
      split: prod.splits sum.splits option.splits)

text \<open>
  Claim C9. The claim: every exception raised in the stages that \<^verbatim>\<open>main\<close> invokes is caught,
  its message is printed, and the process ends with exit status 0. Three runs where it does
  not hold. With \<^verbatim>\<open>TOKEN\<close> absent and standard output full, the handler's own print raises
  \<^verbatim>\<open>OSError\<close>, which leaves \<^verbatim>\<open>main\<close>: nothing is printed and the status is 1. With the same
  environment and a failing final flush, the status is 120. A \<^verbatim>\<open>KeyboardInterrupt\<close> during
  the request for the repository is not an \<^verbatim>\<open>Exception\<close>: it is not caught, nothing is
  printed and the status is 130.
\<close>

theorem main_lets_exceptions_out:
  "main_body (full_stdout_world env_empty two_dirs_tree) [] =
     (Inl (Exception ''TOKEN and REPOSITORY must be set as environment variables.''), [])
   \<and> main (full_stdout_world env_empty two_dirs_tree) [] =
       (Inl (OSError ''[Errno 28] No space left on device''), [])
   \<and> exit_status (full_stdout_world env_empty two_dirs_tree) = 1
   \<and> main_body (unflushed_world env_empty two_dirs_tree) [] =
       (Inl (Exception ''TOKEN and REPOSITORY must be set as environment variables.''), [])
   \<and> exit_status (unflushed_world env_empty two_dirs_tree) = 120
   \<and> main_body (interrupted_world env_both two_dirs_tree) [] =
       (Inl KeyboardInterrupt,
        [GithubClient ''t0'',
         GetRepo ''t0'' ''Sanchit27-jalan/SE-Project-1'' (Inl KeyboardInterrupt)])
   \<and> main (interrupted_world env_both two_dirs_tree) [] =
       (Inl KeyboardInterrupt,
        [GithubClient ''t0'',
         GetRepo ''t0'' ''Sanchit27-jalan/SE-Project-1'' (Inl KeyboardInterrupt)])
   \<and> exit_status (interrupted_world env_both two_dirs_tree) = 130"
  by (simp add: exit_status_def main_eq main_body_def get_repo_def Github_def g_get_repo_def
      bind_def raise_def Let_def full_stdout_world_def unflushed_world_def
      interrupted_world_def example_world_def env_empty_def env_both_def)

text \<open>
  Claim C9, amended. When the body of the \<^verbatim>\<open>try\<close> block raises an exception \<open>e\<close> that is an
  instance of \<^verbatim>\<open>Exception\<close>, it is caught and the handler prints \<^verbatim>\<open>An error occurred:\<close>
  followed by \<^verbatim>\<open>str(e)\<close>; if that line is written, \<^verbatim>\<open>main\<close> returns normally, and if the
  write raises, that exception leaves \<^verbatim>\<open>main\<close>. An exception that is not an instance of
  \<^verbatim>\<open>Exception\<close> leaves \<^verbatim>\<open>main\<close> uncaught. The exit status is 0 exactly when \<^verbatim>\<open>main\<close>
  returns and the final flush of standard output succeeds.
\<close>

theorem main_exception_handling:
  "(main_body w tr = (Inl e, tr') \<and> is_exception e
      \<and> stdout_write w tr' (''An error occurred: '' @ str e) = None \<longrightarrow>
    main w tr = (Inr (), tr' @ [Print (''An error occurred: '' @ str e)]))
   \<and> (main_body w tr = (Inl e, tr') \<and> is_exception e
      \<and> stdout_write w tr' (''An error occurred: '' @ str e) = Some e' \<longrightarrow>
    main w tr = (Inl e', tr'))
   \<and> (main_body w tr = (Inl e, tr') \<and> \<not> is_exception e \<longrightarrow> main w tr = (Inl e, tr'))
   \<and> (exit_status w = 0 \<longleftrightarrow>
        fst (main w []) = Inr () \<and> stdout_flush w (snd (main w [])))"
  by (auto simp: main_eq exit_status_def split: prod.splits sum.splits option.splits)

theorem main_exception_handling_witness:
  "main_body (example_world env_empty two_dirs_tree) [] =
     (Inl (Exception ''TOKEN and REPOSITORY must be set as environment variables.''), [])
   \<and> is_exception (Exception ''TOKEN and REPOSITORY must be set as environment variables.'')
   \<and> stdout_write (example_world env_empty two_dirs_tree) []
        (''An error occurred: ''
         @ str (Exception ''TOKEN and REPOSITORY must be set as environment variables.''))
       = None
   \<and> main (example_world env_empty two_dirs_tree) [] =
       (Inr (),
        [Print ''An error occurred: TOKEN and REPOSITORY must be set as environment variables.''])
   \<and> exit_status (example_world env_empty two_dirs_tree) = 0
   \<and> stdout_write (full_stdout_world env_empty two_dirs_tree) []
        (''An error occurred: ''
         @ str (Exception ''TOKEN and REPOSITORY must be set as environment variables.''))
       = Some (OSError ''[Errno 28] No space left on device'')
   \<and> main (full_stdout_world env_empty two_dirs_tree) [] =
       (Inl (OSError ''[Errno 28] No space left on device''), [])
   \<and> main (interrupted_world env_both two_dirs_tree) [] =
       (Inl KeyboardInterrupt,
        [GithubClient ''t0'',
         GetRepo ''t0'' ''Sanchit27-jalan/SE-Project-1'' (Inl KeyboardInterrupt)])"
proof -
  have b1: "main_body (example_world env_empty two_dirs_tree) [] =
     (Inl (Exception ''TOKEN and REPOSITORY must be set as environment variables.''), [])"
    by (simp add: main_body_def get_repo_def example_world_def env_empty_def bind_def raise_def)
  have b2: "main_body (full_stdout_world env_empty two_dirs_tree) [] =
     (Inl (Exception ''TOKEN and REPOSITORY must be set as environment variables.''), [])"
    by (simp add: main_body_def get_repo_def full_stdout_world_def example_world_def
        env_empty_def bind_def raise_def)
  have b3: "main_body (interrupted_world env_both two_dirs_tree) [] =
       (Inl KeyboardInterrupt,
        [GithubClient ''t0'',
         GetRepo ''t0'' ''Sanchit27-jalan/SE-Project-1'' (Inl KeyboardInterrupt)])"
    by (simp add: main_body_def get_repo_def Github_def g_get_repo_def bind_def Let_def
        interrupted_world_def example_world_def env_both_def)
  have x: "is_exception (Exception ''TOKEN and REPOSITORY must be set as environment variables.'')"
    "\<not> is_exception KeyboardInterrupt"
    by simp_all
  have s1: "stdout_write (example_world env_empty two_dirs_tree) []
        (''An error occurred: ''
         @ str (Exception ''TOKEN and REPOSITORY must be set as environment variables.''))
       = None"
    by (simp add: example_world_def)
  have s2: "stdout_write (full_stdout_world env_empty two_dirs_tree) []
        (''An error occurred: ''
         @ str (Exception ''TOKEN and REPOSITORY must be set as environment variables.''))
       = Some (OSError ''[Errno 28] No space left on device'')"
    by (simp add: full_stdout_world_def example_world_def)
  note t1 = main_exception_handling
    [of "example_world env_empty two_dirs_tree" "[]"
        "Exception ''TOKEN and REPOSITORY must be set as environment variables.''" "[]"]
  note t2 = main_exception_handling
    [of "full_stdout_world env_empty two_dirs_tree" "[]"
        "Exception ''TOKEN and REPOSITORY must be set as environment variables.''" "[]"
        "OSError ''[Errno 28] No space left on device''"]
  note t3 = main_exception_handling
    [of "interrupted_world env_both two_dirs_tree" "[]" KeyboardInterrupt
        "[GithubClient ''t0'',
          GetRepo ''t0'' ''Sanchit27-jalan/SE-Project-1'' (Inl KeyboardInterrupt)]"]
  from t1 b1 x(1) s1 have m1: "main (example_world env_empty two_dirs_tree) [] =
       (Inr (),
        [Print ''An error occurred: TOKEN and REPOSITORY must be set as environment variables.''])"
    by simp
  from t1 m1 have e1: "exit_status (example_world env_empty two_dirs_tree) = 0"
    by (simp add: example_world_def)
  from t2 b2 x(1) s2 have m2: "main (full_stdout_world env_empty two_dirs_tree) [] =
       (Inl (OSError ''[Errno 28] No space left on device''), [])"
    by simp
  from t3 b3 x(2) have m3: "main (interrupted_world env_both two_dirs_tree) [] =
       (Inl KeyboardInterrupt,
        [GithubClient ''t0'',
         GetRepo ''t0'' ''Sanchit27-jalan/SE-Project-1'' (Inl KeyboardInterrupt)])"
    by simp
  from b1 x(1) s1 m1 e1 s2 m2 m3 show ?thesis
    by (intro conjI)
qed

subsection \<open>The LLM requester\<close>

lemma call_openai_no_key:
  "environ w ''OPENAI_KEY'' = None \<Longrightarrow>
   call_openai w prompt role tr =
     (Inl (KeyError ''OPENAI_KEY''), tr @ [Print (openai_log role prompt)])"
  by (simp add: call_openai_def environ_getitem_def openai_log_def bind_def print_def
      raise_def)

lemma call_openai_key:
  "environ w ''OPENAI_KEY'' = Some key \<Longrightarrow>
   call_openai w prompt role tr =
     (case chat_completions_create_api w (tr @ [Print (openai_log role prompt)])
             ''https://openrouter.ai/api/v1'' key ''openai/gpt-4o-mini''
             (chat_messages role prompt) of
        Inl e \<Rightarrow> Inl e
      | Inr [] \<Rightarrow> Inl (IndexError ''list index out of range'')
      | Inr (c # cs) \<Rightarrow> Inr c,
      tr @ [Print (openai_log role prompt),
            openai_request key role prompt
              (chat_completions_create_api w (tr @ [Print (openai_log role prompt)])
                 ''https://openrouter.ai/api/v1'' key ''openai/gpt-4o-mini''
                 (chat_messages role prompt))])"
  by (simp add: call_openai_def environ_getitem_def openai_log_def openai_request_def
      chat_messages_def chat_completions_create_def bind_def print_def Let_def return_def
      raise_def split: sum.splits list.splits)

lemma call_openai_ok:
  assumes "environ w ''OPENAI_KEY'' = Some key"
    and "chat_completions_create_api w (tr @ [Print (openai_log role prompt)])
           ''https://openrouter.ai/api/v1'' key ''openai/gpt-4o-mini''
           (chat_messages role prompt) = Inr (c # cs)"
  shows "call_openai w prompt role tr =
     (Inr c, tr @ [Print (openai_log role prompt),
                   openai_request key role prompt (Inr (c # cs))])"
  by (simp add: call_openai_key [OF assms(1)] assms(2))

lemma call_openai_Inr:
  assumes "call_openai w prompt role tr = (Inr c, tr')"
  shows "\<exists>key cs. environ w ''OPENAI_KEY'' = Some key
           \<and> tr' = tr @ [Print (openai_log role prompt),
                          openai_request key role prompt (Inr (c # cs))]"
proof (cases "environ w ''OPENAI_KEY''")
  case None
  with assms show ?thesis by (simp add: call_openai_no_key)
next
  case (Some key)
  with assms show ?thesis
    by (auto simp: call_openai_key split: sum.splits list.splits)
qed

lemma get_contents_eq:
  "get_contents w rp file_path ref tr =
     (get_contents_api w tr rp file_path ref,
      tr @ [GetContents rp file_path ref (get_contents_api w tr rp file_path ref)])"
  by (simp add: get_contents_def Let_def)

lemma refactor_file_ok:
  assumes "get_contents_api w tr rp file_path branch = Inr cf"
    and "decoded_utf8 cf = Inr code"
    and "environ w ''OPENAI_KEY'' = Some key"
    and "chat_completions_create_api w
           (tr @ [GetContents rp file_path branch (Inr cf),
                  Print (openai_log ''Design Smell Finder'' (prompt_design_smells code))])
           ''https://openrouter.ai/api/v1'' key ''openai/gpt-4o-mini''
           (chat_messages ''Design Smell Finder'' (prompt_design_smells code))
         = Inr (smells # more1)"
    and "chat_completions_create_api w
           (tr @ [GetContents rp file_path branch (Inr cf),
                  Print (openai_log ''Design Smell Finder'' (prompt_design_smells code)),
                  openai_request key ''Design Smell Finder'' (prompt_design_smells code)
                    (Inr (smells # more1)),
                  Print (openai_log ''Refactoring Expert'' (prompt_refactor smells code))])
           ''https://openrouter.ai/api/v1'' key ''openai/gpt-4o-mini''
           (chat_messages ''Refactoring Expert'' (prompt_refactor smells code))
         = Inr (refactored # more2)"
  shows "refactor_file_with_llm w rp file_path branch (call_openai w) llm_name tr =
           (Inr (smells, refactored, llm_name),
            tr @ [GetContents rp file_path branch (Inr cf),
                  Print (openai_log ''Design Smell Finder'' (prompt_design_smells code)),
                  openai_request key ''Design Smell Finder'' (prompt_design_smells code)
                    (Inr (smells # more1)),
                  Print (openai_log ''Refactoring Expert'' (prompt_refactor smells code)),
                  openai_request key ''Refactoring Expert'' (prompt_refactor smells code)
                    (Inr (refactored # more2))])"
proof -
  have c1: "call_openai w (prompt_design_smells code) ''Design Smell Finder''
              (tr @ [GetContents rp file_path branch (Inr cf)]) =
            (Inr smells, tr @ [GetContents rp file_path branch (Inr cf),
                  Print (openai_log ''Design Smell Finder'' (prompt_design_smells code)),
                  openai_request key ''Design Smell Finder'' (prompt_design_smells code)
                    (Inr (smells # more1))])"
    using call_openai_ok [OF assms(3), of "tr @ [GetContents rp file_path branch (Inr cf)]"
        "''Design Smell Finder''" "prompt_design_smells code" smells more1] assms(4)
    by simp
  have c2: "call_openai w (prompt_refactor smells code) ''Refactoring Expert''
              (tr @ [GetContents rp file_path branch (Inr cf),
                  Print (openai_log ''Design Smell Finder'' (prompt_design_smells code)),
                  openai_request key ''Design Smell Finder'' (prompt_design_smells code)
                    (Inr (smells # more1))]) =
            (Inr refactored, tr @ [GetContents rp file_path branch (Inr cf),
                  Print (openai_log ''Design Smell Finder'' (prompt_design_smells code)),
                  openai_request key ''Design Smell Finder'' (prompt_design_smells code)
                    (Inr (smells # more1)),
                  Print (openai_log ''Refactoring Expert'' (prompt_refactor smells code)),
                  openai_request key ''Refactoring Expert'' (prompt_refactor smells code)
                    (Inr (refactored # more2))])"
    using call_openai_ok [OF assms(3), of "tr @ [GetContents rp file_path branch (Inr cf),
                  Print (openai_log ''Design Smell Finder'' (prompt_design_smells code)),
                  openai_request key ''Design Smell Finder'' (prompt_design_smells code)
                    (Inr (smells # more1))]"
        "''Refactoring Expert''" "prompt_refactor smells code" refactored more2] assms(5)
    by simp
  show ?thesis
    unfolding refactor_file_with_llm_def
    by (simp add: bind_def get_contents_eq assms(1) decode_utf8_def assms(2) return_def c1 c2)
qed

lemma prompts_embed:
  "\<exists>pre suf. prompt_design_smells code = pre @ code @ suf"
  "\<exists>pre mid. prompt_refactor smells code = pre @ smells @ mid @ code"
proof -
  show "\<exists>pre suf. prompt_design_smells code = pre @ code @ suf"
    unfolding prompt_design_smells_def by (metis append.assoc)
  show "\<exists>pre mid. prompt_refactor smells code = pre @ smells @ mid @ code"
    unfolding prompt_refactor_def by (metis append.assoc)
qed

lemma observe_openai_request [simp]:
  "llm_call (openai_request key role prompt r) = [(chat_messages role prompt, r)]"
  "created_ref (openai_request key role prompt r) = []"
  "file_update (openai_request key role prompt r) = []"
  "pull_request (openai_request key role prompt r) = []"
  by (simp_all add: openai_request_def)

lemma refactor_file_Inr:
  assumes "refactor_file_with_llm w rp f b (call_openai w) n tr = (Inr (s, r, n'), tr')"
  shows "\<exists>cf code key m1 m2. n' = n \<and> get_contents_api w tr rp f b = Inr cf
     \<and> decoded_utf8 cf = Inr code \<and>
     tr' = tr @ [GetContents rp f b (Inr cf),
                 Print (openai_log ''Design Smell Finder'' (prompt_design_smells code)),
                 openai_request key ''Design Smell Finder'' (prompt_design_smells code)
                   (Inr (s # m1)),
                 Print (openai_log ''Refactoring Expert'' (prompt_refactor s code)),
                 openai_request key ''Refactoring Expert'' (prompt_refactor s code)
                   (Inr (r # m2))]"
proof -
  from assms obtain cf tr1 code tr2 tr3 where
    g: "get_contents w rp f b tr = (Inr cf, tr1)" and
    d: "decode_utf8 cf tr1 = (Inr code, tr2)" and
    c1: "call_openai w (prompt_design_smells code) ''Design Smell Finder'' tr2 = (Inr s, tr3)" and
    c2: "call_openai w (prompt_refactor s code) ''Refactoring Expert'' tr3 = (Inr r, tr')" and
    n: "n' = n"
    by (auto simp: refactor_file_with_llm_def bind_eq_Inr return_def)
  from g have tr1: "tr1 = tr @ [GetContents rp f b (Inr cf)]"
    and api: "get_contents_api w tr rp f b = Inr cf"
    by (auto simp: get_contents_eq)
  from d have code: "decoded_utf8 cf = Inr code" and tr2: "tr2 = tr1"
    by (auto simp: decode_utf8_def return_def raise_def split: sum.splits)
  from call_openai_Inr [OF c1] obtain key m1 where
    key: "environ w ''OPENAI_KEY'' = Some key" and
    tr3: "tr3 = tr2 @ [Print (openai_log ''Design Smell Finder'' (prompt_design_smells code)),
                       openai_request key ''Design Smell Finder'' (prompt_design_smells code)
                         (Inr (s # m1))]"
    by blast
  from call_openai_Inr [OF c2] key obtain m2 where
    tr': "tr' = tr3 @ [Print (openai_log ''Refactoring Expert'' (prompt_refactor s code)),
                       openai_request key ''Refactoring Expert'' (prompt_refactor s code)
                         (Inr (r # m2))]"
    by auto
  show ?thesis
    using n api code tr1 tr2 tr3 tr' by auto
qed


lemma example_refactor_file:
  "refactor_file_with_llm (example_world env_both two_dirs_tree) example_repo ''a/X.java''
        ''master'' (call_openai (example_world env_both two_dirs_tree)) ''OpenAI'' [] =
       (Inr (''reply 02'', ''reply 04'', ''OpenAI''),
        [] @
        [GetContents example_repo ''a/X.java'' ''master''
           (Inr \<lparr>decoded_utf8 = Inr ''class A {}'', sha = ''f00''\<rparr>),
         Print (openai_log ''Design Smell Finder'' (prompt_design_smells ''class A {}'')),
         openai_request ''k0'' ''Design Smell Finder'' (prompt_design_smells ''class A {}'')
           (Inr [''reply 02'']),
         Print (openai_log ''Refactoring Expert'' (prompt_refactor ''reply 02'' ''class A {}'')),
         openai_request ''k0'' ''Refactoring Expert''
           (prompt_refactor ''reply 02'' ''class A {}'') (Inr [''reply 04''])])"
  by (rule refactor_file_ok) (simp_all add: example_world_def env_both_def pad2_def digit_def)

text \<open>
  Claim C7. The claim: for every selected file, \<^verbatim>\<open>refactor_file_with_llm\<close> issues exactly
  two LLM calls in sequence and returns the two responses. A file for which it does not
  hold: the host answers the request for the contents of the first selected file with 404.
  The function raises that exception and has issued no LLM call.
\<close>

theorem unreadable_file_no_llm_call:
  "refactor_file_with_llm (unreadable_world env_both two_dirs_tree) example_repo
     (fixed_files ! 0) ''master'' (call_openai (unreadable_world env_both two_dirs_tree))
     ''OpenAI'' [] =
   (Inl (GithubException ''404 Not Found''),
    [GetContents example_repo (fixed_files ! 0) ''master''
       (Inl (GithubException ''404 Not Found''))])
   \<and> llm_calls [GetContents example_repo (fixed_files ! 0) ''master''
                   (Inl (GithubException ''404 Not Found''))] = []"
  by (simp add: refactor_file_with_llm_def bind_def get_contents_def Let_def
      unreadable_world_def example_world_def)

text \<open>
  Claim C7, amended. Whenever \<^verbatim>\<open>refactor_file_with_llm\<close> returns, the contents of the file
  were fetched and decoded, and exactly two LLM requests were sent, in this order: the first
  with the smell prompt, in which the decoded content occurs; the second with the
  refactoring prompt, in which the first response and then the content occur. The value
  returned is the first choice of the first response, the first choice of the second
  response, and the name of the LLM.
\<close>

theorem refactor_file_two_llm_calls:
  assumes "refactor_file_with_llm w rp file_path branch (call_openai w) llm_name tr =
             (Inr (smells, refactored, name), tr')"
  shows "\<exists>cf code key more1 more2.
       name = llm_name
     \<and> get_contents_api w tr rp file_path branch = Inr cf \<and> decoded_utf8 cf = Inr code
     \<and> tr' = tr @ [GetContents rp file_path branch (Inr cf),
                  Print (openai_log ''Design Smell Finder'' (prompt_design_smells code)),
                  openai_request key ''Design Smell Finder'' (prompt_design_smells code)
                    (Inr (smells # more1)),
                  Print (openai_log ''Refactoring Expert'' (prompt_refactor smells code)),
                  openai_request key ''Refactoring Expert'' (prompt_refactor smells code)
                    (Inr (refactored # more2))]
     \<and> llm_calls tr' = llm_calls tr @
           [(chat_messages ''Design Smell Finder'' (prompt_design_smells code),
             Inr (smells # more1)),
            (chat_messages ''Refactoring Expert'' (prompt_refactor smells code),
             Inr (refactored # more2))]
     \<and> (\<exists>pre suf. prompt_design_smells code = pre @ code @ suf)
     \<and> (\<exists>pre mid. prompt_refactor smells code = pre @ smells @ mid @ code)"
proof -
  from refactor_file_Inr [OF assms] obtain cf code key more1 more2 where
    n: "name = llm_name" and
    g: "get_contents_api w tr rp file_path branch = Inr cf" and
    d: "decoded_utf8 cf = Inr code" and
    t: "tr' = tr @ [GetContents rp file_path branch (Inr cf),
                  Print (openai_log ''Design Smell Finder'' (prompt_design_smells code)),
                  openai_request key ''Design Smell Finder'' (prompt_design_smells code)
                    (Inr (smells # more1)),
                  Print (openai_log ''Refactoring Expert'' (prompt_refactor smells code)),
                  openai_request key ''Refactoring Expert'' (prompt_refactor smells code)
                    (Inr (refactored # more2))]"
    by blast
  have l: "llm_calls tr' = llm_calls tr @
           [(chat_messages ''Design Smell Finder'' (prompt_design_smells code),
             Inr (smells # more1)),
            (chat_messages ''Refactoring Expert'' (prompt_refactor smells code),
             Inr (refactored # more2))]"
    by (simp add: t)
  from n g d t l prompts_embed(1) [of code] prompts_embed(2) [of smells code]
  show ?thesis by blast
qed

theorem refactor_file_two_llm_calls_witness:
  "refactor_file_with_llm (example_world env_both two_dirs_tree) example_repo ''a/X.java''
        ''master'' (call_openai (example_world env_both two_dirs_tree)) ''OpenAI'' [] =
       (Inr (''reply 02'', ''reply 04'', ''OpenAI''),
        [GetContents example_repo ''a/X.java'' ''master''
           (Inr \<lparr>decoded_utf8 = Inr ''class A {}'', sha = ''f00''\<rparr>),
         Print (openai_log ''Design Smell Finder'' (prompt_design_smells ''class A {}'')),
         openai_request ''k0'' ''Design Smell Finder'' (prompt_design_smells ''class A {}'')
           (Inr [''reply 02'']),
         Print (openai_log ''Refactoring Expert'' (prompt_refactor ''reply 02'' ''class A {}'')),
         openai_request ''k0'' ''Refactoring Expert''
           (prompt_refactor ''reply 02'' ''class A {}'') (Inr [''reply 04''])])
   \<and> (\<exists>code more1 more2.
        llm_calls
          [GetContents example_repo ''a/X.java'' ''master''
             (Inr \<lparr>decoded_utf8 = Inr ''class A {}'', sha = ''f00''\<rparr>),
           Print (openai_log ''Design Smell Finder'' (prompt_design_smells ''class A {}'')),
           openai_request ''k0'' ''Design Smell Finder'' (prompt_design_smells ''class A {}'')
             (Inr [''reply 02'']),
           Print (openai_log ''Refactoring Expert''
                    (prompt_refactor ''reply 02'' ''class A {}'')),
           openai_request ''k0'' ''Refactoring Expert''
             (prompt_refactor ''reply 02'' ''class A {}'') (Inr [''reply 04''])] =
        [(chat_messages ''Design Smell Finder'' (prompt_design_smells code),
          Inr (''reply 02'' # more1)),
         (chat_messages ''Refactoring Expert'' (prompt_refactor ''reply 02'' code),
          Inr (''reply 04'' # more2))])"
proof -
  have h: "refactor_file_with_llm (example_world env_both two_dirs_tree) example_repo
        ''a/X.java'' ''master'' (call_openai (example_world env_both two_dirs_tree)) ''OpenAI'' []
      = (Inr (''reply 02'', ''reply 04'', ''OpenAI''),
        [GetContents example_repo ''a/X.java'' ''master''
           (Inr \<lparr>decoded_utf8 = Inr ''class A {}'', sha = ''f00''\<rparr>),
         Print (openai_log ''Design Smell Finder'' (prompt_design_smells ''class A {}'')),
         openai_request ''k0'' ''Design Smell Finder'' (prompt_design_smells ''class A {}'')
           (Inr [''reply 02'']),
         Print (openai_log ''Refactoring Expert'' (prompt_refactor ''reply 02'' ''class A {}'')),
         openai_request ''k0'' ''Refactoring Expert''
           (prompt_refactor ''reply 02'' ''class A {}'') (Inr [''reply 04''])])"
    using example_refactor_file by simp
  from refactor_file_two_llm_calls [OF h] obtain code more1 more2 where
    "llm_calls
          [GetContents example_repo ''a/X.java'' ''master''
             (Inr \<lparr>decoded_utf8 = Inr ''class A {}'', sha = ''f00''\<rparr>),
           Print (openai_log ''Design Smell Finder'' (prompt_design_smells ''class A {}'')),
           openai_request ''k0'' ''Design Smell Finder'' (prompt_design_smells ''class A {}'')
             (Inr [''reply 02'']),
           Print (openai_log ''Refactoring Expert''
                    (prompt_refactor ''reply 02'' ''class A {}'')),
           openai_request ''k0'' ''Refactoring Expert''
             (prompt_refactor ''reply 02'' ''class A {}'') (Inr [''reply 04''])] =
        llm_calls [] @
        [(chat_messages ''Design Smell Finder'' (prompt_design_smells code),
          Inr (''reply 02'' # more1)),
         (chat_messages ''Refactoring Expert'' (prompt_refactor ''reply 02'' code),
          Inr (''reply 04'' # more2))]"
    by blast
  then have "llm_calls
          [GetContents example_repo ''a/X.java'' ''master''
             (Inr \<lparr>decoded_utf8 = Inr ''class A {}'', sha = ''f00''\<rparr>),
           Print (openai_log ''Design Smell Finder'' (prompt_design_smells ''class A {}'')),
           openai_request ''k0'' ''Design Smell Finder'' (prompt_design_smells ''class A {}'')
             (Inr [''reply 02'']),
           Print (openai_log ''Refactoring Expert''
                    (prompt_refactor ''reply 02'' ''class A {}'')),
           openai_request ''k0'' ''Refactoring Expert''
             (prompt_refactor ''reply 02'' ''class A {}'') (Inr [''reply 04''])] =
        [(chat_messages ''Design Smell Finder'' (prompt_design_smells code),
          Inr (''reply 02'' # more1)),
         (chat_messages ''Refactoring Expert'' (prompt_refactor ''reply 02'' code),
          Inr (''reply 04'' # more2))]"
    by (simp only: llm_calls_Nil append_Nil)
  then have c: "\<exists>code more1 more2.
        llm_calls
          [GetContents example_repo ''a/X.java'' ''master''
             (Inr \<lparr>decoded_utf8 = Inr ''class A {}'', sha = ''f00''\<rparr>),
           Print (openai_log ''Design Smell Finder'' (prompt_design_smells ''class A {}'')),
           openai_request ''k0'' ''Design Smell Finder'' (prompt_design_smells ''class A {}'')
             (Inr [''reply 02'']),
           Print (openai_log ''Refactoring Expert''
                    (prompt_refactor ''reply 02'' ''class A {}'')),
           openai_request ''k0'' ''Refactoring Expert''
             (prompt_refactor ''reply 02'' ''class A {}'') (Inr [''reply 04''])] =
        [(chat_messages ''Design Smell Finder'' (prompt_design_smells code),
          Inr (''reply 02'' # more1)),
         (chat_messages ''Refactoring Expert'' (prompt_refactor ''reply 02'' code),
          Inr (''reply 04'' # more2))]"
    by blast
  from h c show ?thesis
    by (intro conjI)
qed

subsection \<open>A complete run\<close>
















subsection \<open>A run without the key of the LLM\<close>




end
